theory Spec2Isabelle
  imports Complex_Main
begin

section \<open>JavaScript numbers\<close>

text \<open>
  Every quantity of the projection engine (\<open>src/utils/calculations.ts\<close>) is a JavaScript
  \<open>number\<close>, an IEEE-754 double. The properties of interest are about the special values:
  which inputs make a field \<open>NaN\<close> or \<open>Infinity\<close>, and which guards prevent it. The model
  therefore keeps the three special values apart from the finite ones and gives every
  operator its IEEE-754 / ECMAScript result on them (\<open>x / 0\<close>, \<open>0 * Infinity\<close>,
  \<open>Infinity - Infinity\<close>, comparisons with \<open>NaN\<close>, \<open>Math.min\<close>, \<open>Math.max\<close>, \<open>Math.pow\<close>).

  A finite double is represented by the real number it denotes, and an operation on finite
  operands with a finite mathematical result returns that result exactly. Rounding,
  overflow of a finite result to \<open>Infinity\<close> and underflow to zero are not modelled, and the
  two zeros \<open>+0\<close> and \<open>-0\<close> are one value (so a quotient by zero takes its sign from the
  numerator alone).
\<close>

datatype number = NaN | PosInf | NegInf | Fin real

fun js_neg :: "number \<Rightarrow> number" where
  "js_neg NaN = NaN"
| "js_neg PosInf = NegInf"
| "js_neg NegInf = PosInf"
| "js_neg (Fin a) = Fin (- a)"

fun js_add :: "number \<Rightarrow> number \<Rightarrow> number" where
  "js_add (Fin a) (Fin b) = Fin (a + b)"
| "js_add (Fin a) PosInf = PosInf"
| "js_add (Fin a) NegInf = NegInf"
| "js_add PosInf (Fin b) = PosInf"
| "js_add NegInf (Fin b) = NegInf"
| "js_add PosInf PosInf = PosInf"
| "js_add NegInf NegInf = NegInf"
| "js_add PosInf NegInf = NaN"
| "js_add NegInf PosInf = NaN"
| "js_add NaN y = NaN"
| "js_add x NaN = NaN"

definition js_sub :: "number \<Rightarrow> number \<Rightarrow> number" where
  "js_sub x y = js_add x (js_neg y)"

fun js_mul :: "number \<Rightarrow> number \<Rightarrow> number" where
  "js_mul (Fin a) (Fin b) = Fin (a * b)"
| "js_mul (Fin a) PosInf = (if a = 0 then NaN else if 0 < a then PosInf else NegInf)"
| "js_mul (Fin a) NegInf = (if a = 0 then NaN else if 0 < a then NegInf else PosInf)"
| "js_mul PosInf (Fin b) = (if b = 0 then NaN else if 0 < b then PosInf else NegInf)"
| "js_mul NegInf (Fin b) = (if b = 0 then NaN else if 0 < b then NegInf else PosInf)"
| "js_mul PosInf PosInf = PosInf"
| "js_mul PosInf NegInf = NegInf"
| "js_mul NegInf PosInf = NegInf"
| "js_mul NegInf NegInf = PosInf"
| "js_mul NaN y = NaN"
| "js_mul x NaN = NaN"

fun js_div :: "number \<Rightarrow> number \<Rightarrow> number" where
  "js_div (Fin a) (Fin b) =
     (if b = 0 then (if a = 0 then NaN else if 0 < a then PosInf else NegInf)
      else Fin (a / b))"
| "js_div (Fin a) PosInf = Fin 0"
| "js_div (Fin a) NegInf = Fin 0"
| "js_div PosInf (Fin b) = (if 0 \<le> b then PosInf else NegInf)"
| "js_div NegInf (Fin b) = (if 0 \<le> b then NegInf else PosInf)"
| "js_div PosInf PosInf = NaN"
| "js_div PosInf NegInf = NaN"
| "js_div NegInf PosInf = NaN"
| "js_div NegInf NegInf = NaN"
| "js_div NaN y = NaN"
| "js_div x NaN = NaN"

text \<open>Comparisons: every comparison with \<open>NaN\<close> is false.\<close>

fun js_lt :: "number \<Rightarrow> number \<Rightarrow> bool" where
  "js_lt (Fin a) (Fin b) = (a < b)"
| "js_lt (Fin a) PosInf = True"
| "js_lt (Fin a) NegInf = False"
| "js_lt PosInf y = False"
| "js_lt NegInf (Fin b) = True"
| "js_lt NegInf PosInf = True"
| "js_lt NegInf NegInf = False"
| "js_lt NaN y = False"
| "js_lt x NaN = False"

fun js_le :: "number \<Rightarrow> number \<Rightarrow> bool" where
  "js_le (Fin a) (Fin b) = (a \<le> b)"
| "js_le (Fin a) PosInf = True"
| "js_le (Fin a) NegInf = False"
| "js_le PosInf PosInf = True"
| "js_le PosInf (Fin b) = False"
| "js_le PosInf NegInf = False"
| "js_le NegInf (Fin b) = True"
| "js_le NegInf PosInf = True"
| "js_le NegInf NegInf = True"
| "js_le NaN y = False"
| "js_le x NaN = False"

definition js_gt :: "number \<Rightarrow> number \<Rightarrow> bool" where
  "js_gt x y = js_lt y x"

definition js_ge :: "number \<Rightarrow> number \<Rightarrow> bool" where
  "js_ge x y = js_le y x"

definition isNaN :: "number \<Rightarrow> bool" where
  "isNaN x = (x = NaN)"

definition Math_min :: "number \<Rightarrow> number \<Rightarrow> number" where
  "Math_min x y = (if x = NaN \<or> y = NaN then NaN else if js_le x y then x else y)"

definition Math_max :: "number \<Rightarrow> number \<Rightarrow> number" where
  "Math_max x y = (if x = NaN \<or> y = NaN then NaN else if js_le x y then y else x)"

text \<open>
  \<open>Math.pow\<close> follows ECMAScript's \<open>Number::exponentiate\<close>: a zero exponent gives 1 for
  every base (also \<open>NaN\<close>), a negative base with a non-integral exponent gives \<open>NaN\<close>.
  On finite operands the result is the exact real power; ECMAScript leaves its accuracy to
  the implementation.
\<close>

definition is_integral :: "real \<Rightarrow> bool" where
  "is_integral y = (y = of_int \<lfloor>y\<rfloor>)"

definition is_odd_integer :: "real \<Rightarrow> bool" where
  "is_odd_integer y = (is_integral y \<and> odd \<lfloor>y\<rfloor>)"

definition pow_finite :: "real \<Rightarrow> real \<Rightarrow> number" where
  "pow_finite x y =
     (if x = 0 then (if 0 < y then Fin 0 else PosInf)
      else if 0 < x then Fin (x powr y)
      else if is_integral y
        then Fin ((if odd \<lfloor>y\<rfloor> then - 1 else 1) * (\<bar>x\<bar> powr y))
      else NaN)"

fun Math_pow :: "number \<Rightarrow> number \<Rightarrow> number" where
  "Math_pow b NaN = NaN"
| "Math_pow NaN (Fin y) = (if y = 0 then Fin 1 else NaN)"
| "Math_pow PosInf (Fin y) = (if y = 0 then Fin 1 else if 0 < y then PosInf else Fin 0)"
| "Math_pow NegInf (Fin y) =
     (if y = 0 then Fin 1
      else if 0 < y then (if is_odd_integer y then NegInf else PosInf)
      else Fin 0)"
| "Math_pow (Fin x) (Fin y) = (if y = 0 then Fin 1 else pow_finite x y)"
| "Math_pow NaN PosInf = NaN"
| "Math_pow NaN NegInf = NaN"
| "Math_pow PosInf PosInf = PosInf"
| "Math_pow NegInf PosInf = PosInf"
| "Math_pow PosInf NegInf = Fin 0"
| "Math_pow NegInf NegInf = Fin 0"
| "Math_pow (Fin x) PosInf =
     (if 1 < \<bar>x\<bar> then PosInf else if \<bar>x\<bar> = 1 then NaN else Fin 0)"
| "Math_pow (Fin x) NegInf =
     (if 1 < \<bar>x\<bar> then Fin 0 else if \<bar>x\<bar> = 1 then NaN else PosInf)"

text \<open>
  JavaScript's \<open>a + b + c\<close> and \<open>a - b - c\<close> associate to the left:
  \<open>js_sum [a, b, c]\<close> is \<open>(a + b) + c\<close> and \<open>js_diff a [b, c]\<close> is \<open>(a - b) - c\<close>.
\<close>

fun js_sum :: "number list \<Rightarrow> number" where
  "js_sum [] = Fin 0"
| "js_sum (x # xs) = foldl js_add x xs"

definition js_diff :: "number \<Rightarrow> number list \<Rightarrow> number" where
  "js_diff x ys = foldl js_sub x ys"

text \<open>
  Reading an array out of range gives \<open>undefined\<close>, which arithmetic turns into \<open>NaN\<close>.
\<close>

definition js_index :: "number list \<Rightarrow> nat \<Rightarrow> number" where
  "js_index xs i = (if i < length xs then xs ! i else NaN)"

text \<open>\<open>Array.prototype.findIndex\<close>: the first index whose element passes, or -1.\<close>

fun findIndex :: "('a \<Rightarrow> bool) \<Rightarrow> 'a list \<Rightarrow> int" where
  "findIndex p [] = - 1"
| "findIndex p (x # xs) =
     (if p x then 0
      else (let r = findIndex p xs in if r = - 1 then - 1 else r + 1))"

section \<open>Data model (\<open>src/types/index.ts\<close>)\<close>

record CostItem =
  name :: string
  amount :: number

record CustomSoftware =
  name :: string
  cost :: number

record Costs =
  productBox :: number
  bottleSprayer :: number
  concentrate :: number
  nfcChip :: number
  printMaterials :: number
  shippingBox :: number
  manufacturingLabor :: number
  customCosts :: "CostItem list"

datatype TrafficSource = Meta | Google | Tiktok | Influencer | Retargeting

record TrafficSourceAllocation =
  percentage :: number
  cpc :: number
  conversionRate :: number

record BudgetAllocation =
  totalBudget :: number
  sources :: "TrafficSource \<Rightarrow> TrafficSourceAllocation"

record Marketing =
  paidAds :: number
  influencerBudget :: number
  contentBudget :: number
  acquisitionPercent :: number
  budgetAllocation :: BudgetAllocation

record Software =
  shopify :: number
  klaviyo :: number
  quickbooks :: number
  tidio :: number
  customSoftware :: "CustomSoftware list"

record Operational =
  labor :: number
  rentUtilities :: number
  officeExpenses :: number
  workTools :: number
  techFees :: number
  travel :: number
  software :: Software

datatype FulfillmentType = ThirdPartyFulfillment | InHouseFulfillment

record Inbound =
  containerCost :: number
  customsDuty :: number
  freightForwarding :: number
  portHandling :: number

record ThirdParty =
  pickAndPack :: number
  storage :: number
  postage :: number

record InHouse =
  labor :: number
  postage :: number
  warehouseRent :: number

record Shipping =
  fulfillmentType :: FulfillmentType
  inbound :: Inbound
  thirdParty :: ThirdParty
  inHouse :: InHouse

record Misc =
  paymentProcessingFee :: number
  taxRate :: number
  returnsRefundsPercent :: number
  monthlyChurnRate :: number
  legalCompliance :: number
  researchDevelopment :: number

record FinancialInputs =
  modelName :: string
  modelDescription :: string
  pricePerUnit :: number
  unitsSoldYear1 :: number
  annualGrowthRate :: number
  initialInvestment :: number
  costs :: Costs
  marketing :: Marketing
  operational :: Operational
  shipping :: Shipping
  misc :: Misc
  darkMode :: bool

record MarketingMetrics =
  cac :: number
  ltv :: number
  monthlyChurn :: number
  organicSales :: number
  paidSales :: number
  acquisitionSpend :: number
  retentionSpend :: number
  customerLifespan :: number
  organicPercentage :: number

record MonthlyData =
  revenue :: "number list"
  cumulativeProfit :: "number list"
  cashFlow :: "number list"

record AnnualMetrics =
  revenue :: "number list"
  grossProfit :: "number list"
  netProfit :: "number list"

record Cogs =
  perUnit :: number
  total :: number

record Margins =
  gross :: number
  net :: number

record ExpenseBreakdown =
  productMaterials :: number
  shipping :: number
  marketing :: number
  operational :: number
  misc :: number

record CalculatedMetrics =
  revenue :: "number list"
  grossProfit :: "number list"
  netProfit :: "number list"
  breakEvenMonth :: int
  monthlyData :: MonthlyData
  cogs :: Cogs
  marketingMetrics :: MarketingMetrics
  ltvCacRatio :: number
  margins :: Margins
  expenseBreakdown :: ExpenseBreakdown

section \<open>The projection engine (\<open>src/utils/calculations.ts\<close>)\<close>

definition MONTHS_IN_YEAR :: nat where
  "MONTHS_IN_YEAR = 12"

subsection \<open>Unit costs\<close>

definition calculateProductMaterialsPerUnit :: "FinancialInputs \<Rightarrow> number" where
  "calculateProductMaterialsPerUnit inputs =
     (let c = FinancialInputs.costs inputs in
      js_sum [productBox c, bottleSprayer c, concentrate c, nfcChip c, printMaterials c,
              shippingBox c, manufacturingLabor c,
              foldl (\<lambda>sum cost. js_add sum (amount cost)) (Fin 0) (customCosts c)])"

definition unitsPerContainer :: number where
  "unitsPerContainer = Fin 5000"

definition inboundCosts :: "FinancialInputs \<Rightarrow> number" where
  "inboundCosts inputs =
     (let ib = inbound (FinancialInputs.shipping inputs) in
      js_sum [js_div (containerCost ib) unitsPerContainer,
              js_mul (pricePerUnit inputs) (js_div (customsDuty ib) (Fin 100)),
              js_div (freightForwarding ib) unitsPerContainer,
              js_div (portHandling ib) unitsPerContainer])"

definition outboundCosts :: "FinancialInputs \<Rightarrow> number" where
  "outboundCosts inputs =
     (let sh = FinancialInputs.shipping inputs;
          monthlyUnits = js_div (unitsSoldYear1 inputs) (Fin (real MONTHS_IN_YEAR))
      in if fulfillmentType sh = ThirdPartyFulfillment
         then js_sum [pickAndPack (thirdParty sh), storage (thirdParty sh),
                      ThirdParty.postage (thirdParty sh)]
         else js_sum [InHouse.labor (inHouse sh), InHouse.postage (inHouse sh),
                      js_div (warehouseRent (inHouse sh)) monthlyUnits])"

definition calculateShippingCostsPerUnit :: "FinancialInputs \<Rightarrow> number" where
  "calculateShippingCostsPerUnit inputs = js_add (inboundCosts inputs) (outboundCosts inputs)"

subsection \<open>Monthly series\<close>

definition monthlyGrowthRate :: "FinancialInputs \<Rightarrow> number" where
  "monthlyGrowthRate inputs =
     js_sub (Math_pow (js_add (Fin 1) (js_div (annualGrowthRate inputs) (Fin 100)))
                      (js_div (Fin 1) (Fin 12)))
            (Fin 1)"

definition baseMonthlyUnits :: "FinancialInputs \<Rightarrow> number" where
  "baseMonthlyUnits inputs = js_div (unitsSoldYear1 inputs) (Fin (real MONTHS_IN_YEAR))"

definition monthlyFixedCosts :: "FinancialInputs \<Rightarrow> number" where
  "monthlyFixedCosts inputs =
     (let op = FinancialInputs.operational inputs; m = FinancialInputs.misc inputs in
      js_sum [js_div (Operational.labor op) (Fin 12),
              js_div (rentUtilities op) (Fin 12),
              js_div (officeExpenses op) (Fin 12),
              js_div (workTools op) (Fin 12),
              js_div (techFees op) (Fin 12),
              js_div (travel op) (Fin 12),
              js_div (legalCompliance m) (Fin 12),
              js_div (researchDevelopment m) (Fin 12)])"

definition monthlySoftwareCosts :: "FinancialInputs \<Rightarrow> number" where
  "monthlySoftwareCosts inputs =
     (let sw = software (FinancialInputs.operational inputs) in
      js_sum [shopify sw, klaviyo sw, quickbooks sw, tidio sw,
              foldl (\<lambda>sum software. js_add sum (cost software)) (Fin 0) (customSoftware sw)])"

definition monthlyMarketingCosts :: "FinancialInputs \<Rightarrow> number" where
  "monthlyMarketingCosts inputs = totalBudget (budgetAllocation (FinancialInputs.marketing inputs))"

text \<open>Revenue and profit of one month: the body of the loop, before the three pushes.\<close>

definition monthRevenue :: "FinancialInputs \<Rightarrow> nat \<Rightarrow> number" where
  "monthRevenue inputs month =
     (let monthlyUnits = js_mul (baseMonthlyUnits inputs)
            (Math_pow (js_add (Fin 1) (monthlyGrowthRate inputs)) (Fin (real month)))
      in js_mul monthlyUnits (pricePerUnit inputs))"

definition monthlyProfit :: "FinancialInputs \<Rightarrow> number \<Rightarrow> nat \<Rightarrow> number" where
  "monthlyProfit inputs cogsPerUnit month =
     (let monthlyUnits = js_mul (baseMonthlyUnits inputs)
            (Math_pow (js_add (Fin 1) (monthlyGrowthRate inputs)) (Fin (real month)));
          revenue = js_mul monthlyUnits (pricePerUnit inputs);
          cogs = js_mul monthlyUnits cogsPerUnit;
          processingFees =
            js_mul revenue (js_div (paymentProcessingFee (FinancialInputs.misc inputs)) (Fin 100));
          returnsRefunds =
            js_mul revenue (js_div (returnsRefundsPercent (FinancialInputs.misc inputs)) (Fin 100));
          totalMonthlyExpenses =
            js_sum [cogs, processingFees, returnsRefunds, monthlyFixedCosts inputs,
                    monthlySoftwareCosts inputs, monthlyMarketingCosts inputs]
      in js_sub revenue totalMonthlyExpenses)"

text \<open>
  The loop state is the three arrays and the running total \<open>cumulativeProfitTotal\<close>;
  \<open>monthlyStep\<close> is one iteration.
\<close>

type_synonym monthly_state = "number list \<times> number list \<times> number list \<times> number"

definition monthlyStep ::
  "FinancialInputs \<Rightarrow> number \<Rightarrow> monthly_state \<Rightarrow> nat \<Rightarrow> monthly_state" where
  "monthlyStep inputs cogsPerUnit st month =
     (let (monthlyRevenue, cumulativeProfit, cashFlow, cumulativeProfitTotal) = st;
          cumulativeProfitTotal' =
            js_add cumulativeProfitTotal (monthlyProfit inputs cogsPerUnit month)
      in (monthlyRevenue @ [monthRevenue inputs month],
          cumulativeProfit @ [cumulativeProfitTotal'],
          cashFlow @ [monthlyProfit inputs cogsPerUnit month],
          cumulativeProfitTotal'))"

definition calculateMonthlyData :: "FinancialInputs \<Rightarrow> number \<Rightarrow> MonthlyData" where
  "calculateMonthlyData inputs cogsPerUnit =
     (let (monthlyRevenue, cumulativeProfit, cashFlow, cumulativeProfitTotal) =
            foldl (monthlyStep inputs cogsPerUnit)
                  ([], [], [], js_neg (initialInvestment inputs))
                  [0 ..< MONTHS_IN_YEAR * 5]
      in \<lparr> MonthlyData.revenue = monthlyRevenue,
           cumulativeProfit = cumulativeProfit,
           cashFlow = cashFlow \<rparr>)"

subsection \<open>Marketing attribution\<close>

definition targetPoas :: number where
  "targetPoas = Fin (3 / 2)"

definition profitPerUnit :: "FinancialInputs \<Rightarrow> number \<Rightarrow> number" where
  "profitPerUnit inputs cogsPerUnit = js_sub (pricePerUnit inputs) cogsPerUnit"

definition potentialPaidSales :: "FinancialInputs \<Rightarrow> number \<Rightarrow> number" where
  "potentialPaidSales inputs cogsPerUnit =
     js_div (js_mul (totalBudget (budgetAllocation (FinancialInputs.marketing inputs))) targetPoas)
            (profitPerUnit inputs cogsPerUnit)"

definition calculateMarketingMetrics ::
  "FinancialInputs \<Rightarrow> number list \<Rightarrow> number \<Rightarrow> MarketingMetrics" where
  "calculateMarketingMetrics inputs monthlyRevenue cogsPerUnit =
     (let monthlyUnits = js_div (unitsSoldYear1 inputs) (Fin (real MONTHS_IN_YEAR));
          totalMonthlyMarketingSpend =
            totalBudget (budgetAllocation (FinancialInputs.marketing inputs));
          acquisitionSpend =
            js_mul totalMonthlyMarketingSpend
                   (js_div (acquisitionPercent (FinancialInputs.marketing inputs)) (Fin 100));
          retentionSpend = js_sub totalMonthlyMarketingSpend acquisitionSpend;
          paidSales = Math_min monthlyUnits (potentialPaidSales inputs cogsPerUnit);
          organicSales = Math_max (Fin 0) (js_sub monthlyUnits paidSales);
          organicPercentage = js_mul (js_div organicSales monthlyUnits) (Fin 100);
          cac = (if js_gt paidSales (Fin 0) then js_div acquisitionSpend paidSales else Fin 0);
          monthlyChurnRate = js_div (monthlyChurnRate (FinancialInputs.misc inputs)) (Fin 100);
          customerLifespan =
            (if js_gt monthlyChurnRate (Fin 0) then js_div (Fin 1) monthlyChurnRate else Fin 0);
          revenuePerCustomer = pricePerUnit inputs;
          grossMarginPerCustomer = js_sub revenuePerCustomer cogsPerUnit;
          ltv = js_mul grossMarginPerCustomer customerLifespan
      in \<lparr> cac = cac,
           ltv = ltv,
           monthlyChurn = js_mul monthlyChurnRate (Fin 100),
           organicSales = organicSales,
           paidSales = paidSales,
           acquisitionSpend = acquisitionSpend,
           retentionSpend = retentionSpend,
           customerLifespan = customerLifespan,
           organicPercentage = organicPercentage \<rparr>)"

subsection \<open>Annual series\<close>

definition yearlyUnits :: "FinancialInputs \<Rightarrow> nat \<Rightarrow> number" where
  "yearlyUnits inputs year =
     js_mul (unitsSoldYear1 inputs)
            (Math_pow (js_add (Fin 1) (js_div (annualGrowthRate inputs) (Fin 100)))
                      (Fin (real year)))"

definition yearlyRevenue :: "FinancialInputs \<Rightarrow> nat \<Rightarrow> number" where
  "yearlyRevenue inputs year = js_mul (yearlyUnits inputs year) (pricePerUnit inputs)"

definition yearlyCOGS :: "FinancialInputs \<Rightarrow> number \<Rightarrow> nat \<Rightarrow> number" where
  "yearlyCOGS inputs cogsPerUnit year = js_mul (yearlyUnits inputs year) cogsPerUnit"

definition yearlyReturns :: "FinancialInputs \<Rightarrow> nat \<Rightarrow> number" where
  "yearlyReturns inputs year =
     js_mul (yearlyRevenue inputs year)
            (js_div (returnsRefundsPercent (FinancialInputs.misc inputs)) (Fin 100))"

definition yearlyGrossProfit :: "FinancialInputs \<Rightarrow> number \<Rightarrow> nat \<Rightarrow> number" where
  "yearlyGrossProfit inputs cogsPerUnit year =
     js_diff (yearlyRevenue inputs year)
             [yearlyCOGS inputs cogsPerUnit year, yearlyReturns inputs year]"

definition yearlyNetProfit :: "FinancialInputs \<Rightarrow> number \<Rightarrow> nat \<Rightarrow> number" where
  "yearlyNetProfit inputs cogsPerUnit year =
     (let op = FinancialInputs.operational inputs; m = FinancialInputs.misc inputs;
          sw = software op;
          yearlyFixedCosts =
            js_sum [Operational.labor op, rentUtilities op, officeExpenses op, workTools op,
                    techFees op, travel op, legalCompliance m, researchDevelopment m];
          yearlyMarketingCosts =
            js_mul (totalBudget (budgetAllocation (FinancialInputs.marketing inputs)))
                   (Fin (real MONTHS_IN_YEAR));
          yearlySoftwareCosts =
            js_mul (js_sum [shopify sw, klaviyo sw, quickbooks sw, tidio sw,
                      foldl (\<lambda>sum software. js_add sum (cost software)) (Fin 0)
                            (customSoftware sw)])
                   (Fin (real MONTHS_IN_YEAR));
          yearlyProcessingFees =
            js_mul (yearlyRevenue inputs year) (js_div (paymentProcessingFee m) (Fin 100));
          yearlyPreTaxProfit =
            js_diff (yearlyGrossProfit inputs cogsPerUnit year)
                    [yearlyProcessingFees, yearlyFixedCosts, yearlyMarketingCosts,
                     yearlySoftwareCosts];
          yearlyTaxes =
            Math_max (Fin 0) (js_mul yearlyPreTaxProfit (js_div (taxRate m) (Fin 100)))
      in js_sub yearlyPreTaxProfit yearlyTaxes)"

type_synonym annual_state = "number list \<times> number list \<times> number list"

definition annualStep ::
  "FinancialInputs \<Rightarrow> number \<Rightarrow> annual_state \<Rightarrow> nat \<Rightarrow> annual_state" where
  "annualStep inputs cogsPerUnit st year =
     (let (revenue, grossProfit, netProfit) = st
      in (revenue @ [yearlyRevenue inputs year],
          grossProfit @ [yearlyGrossProfit inputs cogsPerUnit year],
          netProfit @ [yearlyNetProfit inputs cogsPerUnit year]))"

definition calculateAnnualMetrics :: "FinancialInputs \<Rightarrow> number \<Rightarrow> AnnualMetrics" where
  "calculateAnnualMetrics inputs cogsPerUnit =
     (let (revenue, grossProfit, netProfit) =
            foldl (annualStep inputs cogsPerUnit) ([], [], []) [0 ..< 5]
      in \<lparr> AnnualMetrics.revenue = revenue,
           AnnualMetrics.grossProfit = grossProfit,
           AnnualMetrics.netProfit = netProfit \<rparr>)"

subsection \<open>Break-even\<close>

definition calculateBreakEvenMonth :: "number \<Rightarrow> number list \<Rightarrow> int" where
  "calculateBreakEvenMonth initialInvestment' cumulativeProfit' =
     (let breakEvenIndex = findIndex (\<lambda>profit. js_ge profit (Fin 0)) cumulativeProfit'
      in if breakEvenIndex = - 1 then 60 else breakEvenIndex + 1)"

subsection \<open>Expense breakdown\<close>

definition calculateExpenseBreakdown ::
  "FinancialInputs \<Rightarrow> number \<Rightarrow> number \<Rightarrow> ExpenseBreakdown" where
  "calculateExpenseBreakdown inputs yearlyRevenue' yearlyTotalCOGS =
     (let yearlyUnits = unitsSoldYear1 inputs;
          op = FinancialInputs.operational inputs; m = FinancialInputs.misc inputs;
          sw = software op;
          productMaterials = js_mul (calculateProductMaterialsPerUnit inputs) yearlyUnits;
          shipping = js_mul (calculateShippingCostsPerUnit inputs) yearlyUnits;
          marketing =
            js_mul (totalBudget (budgetAllocation (FinancialInputs.marketing inputs)))
                   (Fin (real MONTHS_IN_YEAR));
          operational =
            js_sum [Operational.labor op, rentUtilities op, officeExpenses op, workTools op,
                    techFees op, travel op,
                    js_mul (js_sum [shopify sw, klaviyo sw, quickbooks sw, tidio sw,
                              foldl (\<lambda>sum software. js_add sum (cost software)) (Fin 0)
                                    (customSoftware sw)])
                           (Fin (real MONTHS_IN_YEAR))];
          processingFees = js_mul yearlyRevenue' (js_div (paymentProcessingFee m) (Fin 100));
          returnsRefunds = js_mul yearlyRevenue' (js_div (returnsRefundsPercent m) (Fin 100));
          preTaxProfit =
            js_diff yearlyRevenue'
                    [yearlyTotalCOGS, marketing, operational, processingFees, returnsRefunds];
          taxes = Math_max (Fin 0) (js_mul preTaxProfit (js_div (taxRate m) (Fin 100)));
          misc = js_sum [taxes, processingFees, returnsRefunds, legalCompliance m,
                         researchDevelopment m]
      in \<lparr> productMaterials = productMaterials,
           ExpenseBreakdown.shipping = shipping,
           ExpenseBreakdown.marketing = marketing,
           ExpenseBreakdown.operational = operational,
           ExpenseBreakdown.misc = misc \<rparr>)"

subsection \<open>The entry point\<close>

definition cogsPerUnit :: "FinancialInputs \<Rightarrow> number" where
  "cogsPerUnit inputs =
     js_add (calculateProductMaterialsPerUnit inputs) (calculateShippingCostsPerUnit inputs)"

definition calculateMetrics :: "FinancialInputs \<Rightarrow> CalculatedMetrics" where
  "calculateMetrics inputs =
     (let yearOneRevenue = js_mul (pricePerUnit inputs) (unitsSoldYear1 inputs);
          yearOneCOGS = js_mul (cogsPerUnit inputs) (unitsSoldYear1 inputs);
          yearOneReturns =
            js_mul yearOneRevenue
                   (js_div (returnsRefundsPercent (FinancialInputs.misc inputs)) (Fin 100));
          yearOneGrossProfit = js_diff yearOneRevenue [yearOneCOGS, yearOneReturns];
          monthlyData = calculateMonthlyData inputs (cogsPerUnit inputs);
          marketingMetrics =
            calculateMarketingMetrics inputs (MonthlyData.revenue monthlyData)
              (cogsPerUnit inputs);
          annualMetrics = calculateAnnualMetrics inputs (cogsPerUnit inputs);
          expenseBreakdown = calculateExpenseBreakdown inputs yearOneRevenue yearOneCOGS;
          breakEvenMonth =
            calculateBreakEvenMonth (initialInvestment inputs)
              (MonthlyData.cumulativeProfit monthlyData);
          grossMargin = js_mul (js_div yearOneGrossProfit yearOneRevenue) (Fin 100);
          netMargin =
            js_mul (js_div (js_index (AnnualMetrics.netProfit annualMetrics) 0) yearOneRevenue)
                   (Fin 100)
      in \<lparr> CalculatedMetrics.revenue = AnnualMetrics.revenue annualMetrics,
           CalculatedMetrics.grossProfit = AnnualMetrics.grossProfit annualMetrics,
           CalculatedMetrics.netProfit = AnnualMetrics.netProfit annualMetrics,
           breakEvenMonth = breakEvenMonth,
           monthlyData = monthlyData,
           cogs = \<lparr> perUnit = cogsPerUnit inputs, total = yearOneCOGS \<rparr>,
           marketingMetrics = marketingMetrics,
           ltvCacRatio =
             (if js_gt (cac marketingMetrics) (Fin 0)
              then js_div (ltv marketingMetrics) (cac marketingMetrics) else Fin 0),
           margins = \<lparr> gross = (if isNaN grossMargin then Fin 0 else grossMargin),
                       net = (if isNaN netMargin then Fin 0 else netMargin) \<rparr>,
           expenseBreakdown = expenseBreakdown \<rparr>)"

subsection \<open>The application's default assumption set (\<open>src/App.tsx\<close>)\<close>

definition defaultSources :: "TrafficSource \<Rightarrow> TrafficSourceAllocation" where
  "defaultSources src =
     (case src of
        Meta \<Rightarrow> \<lparr> percentage = Fin 30, cpc = Fin (3 / 2), conversionRate = Fin 2 \<rparr>
      | Google \<Rightarrow> \<lparr> percentage = Fin 25, cpc = Fin (5 / 2), conversionRate = Fin (7 / 2) \<rparr>
      | Tiktok \<Rightarrow> \<lparr> percentage = Fin 20, cpc = Fin 1, conversionRate = Fin (3 / 2) \<rparr>
      | Influencer \<Rightarrow> \<lparr> percentage = Fin 15, cpc = Fin 2, conversionRate = Fin 4 \<rparr>
      | Retargeting \<Rightarrow> \<lparr> percentage = Fin 10, cpc = Fin (1 / 2), conversionRate = Fin 8 \<rparr>)"

definition defaultInputs :: FinancialInputs where
  "defaultInputs =
     \<lparr> modelName = ''Untitled Model'',
       modelDescription = ''Describe your model'',
       pricePerUnit = Fin 65,
       unitsSoldYear1 = Fin 8000,
       annualGrowthRate = Fin 50,
       initialInvestment = Fin 100000,
       costs = \<lparr> productBox = Fin 2, bottleSprayer = Fin (7 / 2), concentrate = Fin 5,
                 nfcChip = Fin 1, printMaterials = Fin (3 / 4), shippingBox = Fin (3 / 2),
                 manufacturingLabor = Fin (3 / 2), customCosts = [] \<rparr>,
       marketing = \<lparr> paidAds = Fin 10000, influencerBudget = Fin 2500,
                     contentBudget = Fin 1000, acquisitionPercent = Fin 70,
                     budgetAllocation =
                       \<lparr> totalBudget = Fin 10000, sources = defaultSources \<rparr> \<rparr>,
       operational = \<lparr> Operational.labor = Fin 60000, rentUtilities = Fin 24000,
                       officeExpenses = Fin 6000, workTools = Fin 12000,
                       techFees = Fin 3600, travel = Fin 12000,
                       software = \<lparr> shopify = Fin 80, klaviyo = Fin 80,
                                    quickbooks = Fin 100, tidio = Fin 100,
                                    customSoftware = [] \<rparr> \<rparr>,
       shipping = \<lparr> fulfillmentType = ThirdPartyFulfillment,
                    inbound = \<lparr> containerCost = Fin 3000, customsDuty = Fin 5,
                                freightForwarding = Fin 500, portHandling = Fin 250 \<rparr>,
                    thirdParty = \<lparr> pickAndPack = Fin (5 / 2), storage = Fin (1 / 2),
                                   ThirdParty.postage = Fin (5 / 2) \<rparr>,
                    inHouse = \<lparr> InHouse.labor = Fin (3 / 4), InHouse.postage = Fin (9 / 2),
                                warehouseRent = Fin 2000 \<rparr> \<rparr>,
       misc = \<lparr> paymentProcessingFee = Fin 1, taxRate = Fin 20,
                returnsRefundsPercent = Fin 2, monthlyChurnRate = Fin 5,
                legalCompliance = Fin 5000, researchDevelopment = Fin 20000 \<rparr>,
       darkMode = False \<rparr>"

section \<open>Assumption sets used as examples\<close>

text \<open>
  Each is the application's default assumption set with the fields named changed; every one
  can be reached from the input widgets (the sliders start at 0, the fulfillment mode is a
  toggle, and the Zero Values buttons of the cost, shipping and marketing panels set the
  panel's amounts to 0), except a churn rate below the churn slider's minimum of 2, which a
  saved model can hold.
\<close>

definition zeroVolumeInputs :: FinancialInputs where
  "zeroVolumeInputs = defaultInputs\<lparr>unitsSoldYear1 := Fin 0\<rparr>"

definition zeroVolumeInHouseInputs :: FinancialInputs where
  "zeroVolumeInHouseInputs =
     defaultInputs\<lparr>unitsSoldYear1 := Fin 0,
       FinancialInputs.shipping :=
         (FinancialInputs.shipping defaultInputs)\<lparr>fulfillmentType := InHouseFulfillment\<rparr>\<rparr>"

definition lowPriceInputs :: FinancialInputs where
  "lowPriceInputs = defaultInputs\<lparr>pricePerUnit := Fin 10\<rparr>"

definition zeroBudgetZeroVolumeInputs :: FinancialInputs where
  "zeroBudgetZeroVolumeInputs =
     defaultInputs\<lparr>unitsSoldYear1 := Fin 0,
       FinancialInputs.marketing :=
         (FinancialInputs.marketing defaultInputs)\<lparr>budgetAllocation :=
           (budgetAllocation (FinancialInputs.marketing defaultInputs))\<lparr>totalBudget := Fin 0\<rparr>\<rparr>\<rparr>"

definition zeroBudgetZeroProfitInputs :: FinancialInputs where
  "zeroBudgetZeroProfitInputs =
     defaultInputs\<lparr>pricePerUnit := Fin 0,
       FinancialInputs.costs :=
         \<lparr> productBox = Fin 0, bottleSprayer = Fin 0, concentrate = Fin 0, nfcChip = Fin 0,
           printMaterials = Fin 0, shippingBox = Fin 0, manufacturingLabor = Fin 0,
           customCosts = [] \<rparr>,
       FinancialInputs.shipping :=
         \<lparr> fulfillmentType = ThirdPartyFulfillment,
           inbound = \<lparr> containerCost = Fin 0, customsDuty = Fin 0,
                       freightForwarding = Fin 0, portHandling = Fin 0 \<rparr>,
           thirdParty = \<lparr> pickAndPack = Fin 0, storage = Fin 0, ThirdParty.postage = Fin 0 \<rparr>,
           inHouse = \<lparr> InHouse.labor = Fin 0, InHouse.postage = Fin 0,
                       warehouseRent = Fin 0 \<rparr> \<rparr>,
       FinancialInputs.marketing :=
         (FinancialInputs.marketing defaultInputs)\<lparr>paidAds := Fin 0, budgetAllocation :=
           (budgetAllocation (FinancialInputs.marketing defaultInputs))\<lparr>totalBudget := Fin 0\<rparr>\<rparr>\<rparr>"

definition zeroChurnZeroVolumeInHouseInputs :: FinancialInputs where
  "zeroChurnZeroVolumeInHouseInputs =
     zeroVolumeInHouseInputs\<lparr>FinancialInputs.misc :=
       (FinancialInputs.misc zeroVolumeInHouseInputs)\<lparr>monthlyChurnRate := Fin 0\<rparr>\<rparr>"

definition zeroChurnInputs :: FinancialInputs where
  "zeroChurnInputs =
     defaultInputs\<lparr>FinancialInputs.misc :=
       (FinancialInputs.misc defaultInputs)\<lparr>monthlyChurnRate := Fin 0\<rparr>\<rparr>"

text \<open>
  The scenario of the annual series: price 65, volume 8000, growth 50 percent, investment
  100000, seven cost fields that sum to 15, and zero everywhere else.
\<close>

definition zeroInbound :: Inbound where
  "zeroInbound = \<lparr> containerCost = Fin 0, customsDuty = Fin 0,
                    freightForwarding = Fin 0, portHandling = Fin 0 \<rparr>"

definition zeroThirdParty :: ThirdParty where
  "zeroThirdParty = \<lparr> pickAndPack = Fin 0, storage = Fin 0, ThirdParty.postage = Fin 0 \<rparr>"

definition zeroInHouse :: InHouse where
  "zeroInHouse = \<lparr> InHouse.labor = Fin 0, InHouse.postage = Fin 0, warehouseRent = Fin 0 \<rparr>"

definition scenarioInputs :: FinancialInputs where
  "scenarioInputs =
     \<lparr> modelName = ''Scenario'',
       modelDescription = '''',
       pricePerUnit = Fin 65,
       unitsSoldYear1 = Fin 8000,
       annualGrowthRate = Fin 50,
       initialInvestment = Fin 100000,
       costs = \<lparr> productBox = Fin 2, bottleSprayer = Fin 3, concentrate = Fin 5,
                 nfcChip = Fin 1, printMaterials = Fin 1, shippingBox = Fin 1,
                 manufacturingLabor = Fin 2, customCosts = [] \<rparr>,
       marketing = \<lparr> paidAds = Fin 0, influencerBudget = Fin 0,
                     contentBudget = Fin 0, acquisitionPercent = Fin 0,
                     budgetAllocation =
                       \<lparr> totalBudget = Fin 0,
                         sources = (\<lambda>src. \<lparr> percentage = Fin 0, cpc = Fin 0,
                                            conversionRate = Fin 0 \<rparr>) \<rparr> \<rparr>,
       operational = \<lparr> Operational.labor = Fin 0, rentUtilities = Fin 0,
                       officeExpenses = Fin 0, workTools = Fin 0,
                       techFees = Fin 0, travel = Fin 0,
                       software = \<lparr> shopify = Fin 0, klaviyo = Fin 0,
                                    quickbooks = Fin 0, tidio = Fin 0,
                                    customSoftware = [] \<rparr> \<rparr>,
       shipping = \<lparr> fulfillmentType = InHouseFulfillment,
                    inbound = \<lparr> containerCost = Fin 0, customsDuty = Fin 0,
                                freightForwarding = Fin 0, portHandling = Fin 0 \<rparr>,
                    thirdParty = \<lparr> pickAndPack = Fin 0, storage = Fin 0,
                                   ThirdParty.postage = Fin 0 \<rparr>,
                    inHouse = \<lparr> InHouse.labor = Fin 0, InHouse.postage = Fin 0,
                                warehouseRent = Fin 0 \<rparr> \<rparr>,
       misc = \<lparr> paymentProcessingFee = Fin 0, taxRate = Fin 0,
                returnsRefundsPercent = Fin 0, monthlyChurnRate = Fin 0,
                legalCompliance = Fin 0, researchDevelopment = Fin 0 \<rparr>,
       darkMode = False \<rparr>"

text \<open>
  \<open>withUnreadFields\<close> replaces the name and description, the dark-mode flag, the three
  legacy marketing budgets and the whole per-channel allocation table of an assumption
  set, and leaves every other field as it is.
\<close>

definition withUnreadFields ::
  "FinancialInputs \<Rightarrow> string \<Rightarrow> string \<Rightarrow> bool \<Rightarrow> number \<Rightarrow> number \<Rightarrow> number
     \<Rightarrow> (TrafficSource \<Rightarrow> TrafficSourceAllocation) \<Rightarrow> FinancialInputs" where
  "withUnreadFields inputs nm ds dm pa ib cb srcs =
     inputs\<lparr> modelName := nm, modelDescription := ds, darkMode := dm,
       FinancialInputs.marketing :=
         (FinancialInputs.marketing inputs)\<lparr> paidAds := pa, influencerBudget := ib,
           contentBudget := cb,
           budgetAllocation :=
             (budgetAllocation (FinancialInputs.marketing inputs))\<lparr> sources := srcs \<rparr> \<rparr> \<rparr>"

section \<open>Auxiliary notions for the proofs\<close>

text \<open>
  \<open>running t ps\<close> is the sequence of running totals that the monthly loop pushes when it
  starts from the total \<open>t\<close> and meets the monthly profits \<open>ps\<close>.
\<close>

fun running :: "number \<Rightarrow> number list \<Rightarrow> number list" where
  "running t [] = []"
| "running t (p # ps) = js_add t p # running (js_add t p) ps"

text \<open>
  \<open>dominated c1 c2\<close> relates the running total \<open>c1\<close> of a run to the total \<open>c2\<close> of a run
  that started lower: either \<open>c2\<close> can no longer reach zero (\<open>NaN\<close> or \<open>-Infinity\<close>), or
  \<open>c1\<close> is a number at least as large as \<open>c2\<close>.
\<close>

definition dominated :: "number \<Rightarrow> number \<Rightarrow> bool" where
  "dominated c1 c2 = (c2 = NaN \<or> c2 = NegInf \<or> (c1 \<noteq> NaN \<and> js_le c2 c1))"

section \<open>\<open>findIndex\<close>\<close>

lemma findIndex_ge: "- 1 \<le> findIndex p xs"
  by (induction xs) (auto simp: Let_def)

lemma findIndex_lt: "findIndex p xs < int (length xs)"
  by (induction xs) (auto simp: Let_def)

lemma findIndex_none: "(findIndex p xs = - 1) = (\<forall>x \<in> set xs. \<not> p x)"
proof (induction xs)
  case Nil
  show ?case by simp
next
  case (Cons x xs)
  have "- 1 \<le> findIndex p xs" by (rule findIndex_ge)
  then have "findIndex p xs + 1 \<noteq> - 1" by arith
  with Cons show ?case by (auto simp: Let_def)
qed

lemma findIndex_first:
  "i < length xs \<Longrightarrow> p (xs ! i) \<Longrightarrow> \<forall>j<i. \<not> p (xs ! j) \<Longrightarrow> findIndex p xs = int i"
proof (induction xs arbitrary: i)
  case Nil
  then show ?case by simp
next
  case (Cons x xs)
  show ?case
  proof (cases i)
    case 0
    with Cons.prems show ?thesis by simp
  next
    case (Suc k)
    from Cons.prems Suc have nx: "\<not> p x" by auto
    from Cons.prems Suc have k: "k < length xs" "p (xs ! k)" by auto
    from Cons.prems Suc have "\<forall>j<k. \<not> p (xs ! j)" by auto
    with k have r: "findIndex p xs = int k" by (rule Cons.IH)
    with nx Suc show ?thesis by (simp add: Let_def)
  qed
qed

section \<open>The break-even locator\<close>

text \<open>
  Claim C5. \<open>calculateBreakEvenMonth\<close> returns \<open>i + 1\<close> where \<open>i\<close> is the first index of the
  cumulative profit series whose entry is \<open>\<ge> 0\<close> (an index that passes while no earlier one
  does), and the sentinel 60 when no index of the series passes. The comparison is
  JavaScript's: a \<open>NaN\<close> entry never passes. This holds for a series of any length, in
  particular for the 60-element series of the monthly loop.
\<close>

theorem breakEven_first_index:
  "(i < length cp \<and> js_ge (cp ! i) (Fin 0) \<and> (\<forall>j<i. \<not> js_ge (cp ! j) (Fin 0))
        \<longrightarrow> calculateBreakEvenMonth investment cp = int i + 1)
   \<and> ((\<forall>k<length cp. \<not> js_ge (cp ! k) (Fin 0)) \<longrightarrow> calculateBreakEvenMonth investment cp = 60)"
proof (intro conjI impI)
  assume h: "i < length cp \<and> js_ge (cp ! i) (Fin 0) \<and> (\<forall>j<i. \<not> js_ge (cp ! j) (Fin 0))"
  then have "findIndex (\<lambda>profit. js_ge profit (Fin 0)) cp = int i"
    by (intro findIndex_first) auto
  then show "calculateBreakEvenMonth investment cp = int i + 1"
    by (simp add: calculateBreakEvenMonth_def)
next
  assume "\<forall>k<length cp. \<not> js_ge (cp ! k) (Fin 0)"
  then have "\<forall>x \<in> set cp. \<not> js_ge x (Fin 0)"
    by (auto simp: in_set_conv_nth)
  then have "findIndex (\<lambda>profit. js_ge profit (Fin 0)) cp = - 1"
    by (simp add: findIndex_none)
  then show "calculateBreakEvenMonth investment cp = 60"
    by (simp add: calculateBreakEvenMonth_def)
qed

theorem breakEven_first_index_witness:
  "calculateBreakEvenMonth (Fin 5) [Fin (- 5), Fin (- 2), Fin 1, Fin 4] = 3
   \<and> calculateBreakEvenMonth (Fin 5) [Fin (- 5), NaN, NegInf] = 60"
proof -
  have a: "calculateBreakEvenMonth (Fin 5) [Fin (- 5), Fin (- 2), Fin 1, Fin 4] = 3"
    using breakEven_first_index [of 2 "[Fin (- 5), Fin (- 2), Fin 1, Fin 4]" "Fin 5"]
    by (simp add: js_ge_def All_less_Suc eval_nat_numeral)
  have b: "calculateBreakEvenMonth (Fin 5) [Fin (- 5), NaN, NegInf] = 60"
    using breakEven_first_index [of 0 "[Fin (- 5), NaN, NegInf]" "Fin 5"]
    by (simp add: js_ge_def All_less_Suc eval_nat_numeral)
  from a b show ?thesis by simp
qed

section \<open>Break-even is monotone in the initial investment\<close>

text \<open>
  The monthly profits do not read \<open>initialInvestment\<close>; the cumulative series is the
  sequence of running totals that starts at \<open>-initialInvestment\<close>. Raising the investment
  lowers the start, and \<open>dominated\<close> is kept by every addition, so an entry of the lower
  series can pass \<open>\<ge> 0\<close> only where the entry of the higher series passes too.
\<close>

lemma dominated_add: "dominated c1 c2 \<Longrightarrow> dominated (js_add c1 p) (js_add c2 p)"
  by (cases c1; cases c2; cases p) (auto simp: dominated_def)

lemma dominated_ge: "dominated c1 c2 \<Longrightarrow> js_ge c2 (Fin 0) \<Longrightarrow> js_ge c1 (Fin 0)"
  by (cases c1; cases c2) (auto simp: dominated_def js_ge_def)

lemma dominated_neg: "js_lt a b \<Longrightarrow> dominated (js_neg a) (js_neg b)"
  by (cases a; cases b) (auto simp: dominated_def)

lemma running_dominated:
  "dominated t1 t2 \<Longrightarrow> list_all2 dominated (running t1 ps) (running t2 ps)"
  by (induction ps arbitrary: t1 t2) (auto simp: dominated_add)

lemma findIndex_mono:
  "list_all2 (\<lambda>x y. q y \<longrightarrow> p x) xs ys \<Longrightarrow> findIndex q ys \<noteq> - 1 \<Longrightarrow>
     findIndex p xs \<noteq> - 1 \<and> findIndex p xs \<le> findIndex q ys"
proof (induction rule: list_all2_induct)
  case Nil
  then show ?case by simp
next
  case (Cons x xs y ys)
  have g: "- 1 \<le> findIndex p xs" "- 1 \<le> findIndex q ys" by (rule findIndex_ge)+
  show ?case
  proof (cases "p x")
    case True
    with g Cons show ?thesis by (auto simp: Let_def split: if_splits)
  next
    case False
    with Cons.hyps have "\<not> q y" by auto
    with False g Cons show ?thesis by (auto simp: Let_def split: if_splits)
  qed
qed


lemma length_running: "length (running t ps) = length ps"
  by (induction ps arbitrary: t) auto

lemma foldl_monthlyStep_cum:
  "fst (snd (foldl (monthlyStep inputs c) (r, cum, cf, t) ms)) =
     cum @ running t (map (monthlyProfit inputs c) ms)"
  by (induction ms arbitrary: r cum cf t) (auto simp: monthlyStep_def Let_def)

lemma cumulativeProfit_running:
  "MonthlyData.cumulativeProfit (calculateMonthlyData inputs c) =
     running (js_neg (initialInvestment inputs))
             (map (monthlyProfit inputs c) [0 ..< MONTHS_IN_YEAR * 5])"
proof -
  obtain r cum cf t where
    f: "foldl (monthlyStep inputs c) ([], [], [], js_neg (initialInvestment inputs))
              [0 ..< MONTHS_IN_YEAR * 5] = (r, cum, cf, t)"
    by (metis prod_cases4)
  have "cum = fst (snd (foldl (monthlyStep inputs c) ([], [], [], js_neg (initialInvestment inputs))
              [0 ..< MONTHS_IN_YEAR * 5]))"
    by (simp add: f)
  then have "cum = running (js_neg (initialInvestment inputs))
             (map (monthlyProfit inputs c) [0 ..< MONTHS_IN_YEAR * 5])"
    by (simp add: foldl_monthlyStep_cum)
  then show ?thesis
    by (simp add: calculateMonthlyData_def f)
qed

lemma breakEvenMonth_calculateMetrics:
  "breakEvenMonth (calculateMetrics inputs) =
     calculateBreakEvenMonth (initialInvestment inputs)
       (running (js_neg (initialInvestment inputs))
          (map (monthlyProfit inputs (cogsPerUnit inputs)) [0 ..< MONTHS_IN_YEAR * 5]))"
  by (simp add: calculateMetrics_def Let_def cumulativeProfit_running)

lemma cogsPerUnit_initialInvestment:
  "cogsPerUnit (inputs\<lparr>initialInvestment := v\<rparr>) = cogsPerUnit inputs"
  by (simp add: cogsPerUnit_def calculateProductMaterialsPerUnit_def
      calculateShippingCostsPerUnit_def inboundCosts_def outboundCosts_def)

lemma monthlyProfit_initialInvestment:
  "monthlyProfit (inputs\<lparr>initialInvestment := v\<rparr>) c = monthlyProfit inputs c"
  by (rule ext)
    (simp add: monthlyProfit_def baseMonthlyUnits_def monthlyGrowthRate_def
      monthlyFixedCosts_def monthlySoftwareCosts_def monthlyMarketingCosts_def)

lemma breakEven_dominated:
  assumes "list_all2 dominated xs ys" "length xs = 60"
  shows "calculateBreakEvenMonth a xs \<le> calculateBreakEvenMonth b ys"
proof -
  let ?p = "\<lambda>profit. js_ge profit (Fin 0)"
  from assms(1) have m: "list_all2 (\<lambda>x y. ?p y \<longrightarrow> ?p x) xs ys"
    by (rule list_all2_mono) (auto dest: dominated_ge)
  have lt: "findIndex ?p xs < 60"
    using findIndex_lt [of ?p xs] assms(2) by simp
  show ?thesis
  proof (cases "findIndex ?p ys = - 1")
    case True
    with lt show ?thesis by (simp add: calculateBreakEvenMonth_def Let_def)
  next
    case False
    with findIndex_mono [OF m] show ?thesis
      by (simp add: calculateBreakEvenMonth_def Let_def)
  qed
qed

text \<open>
  Claim C6. For two assumption sets that are the same except that the second has a larger
  \<open>initialInvestment\<close> (JavaScript's \<open><\<close>, so neither value is \<open>NaN\<close>), the break-even
  month that \<open>calculateMetrics\<close> returns for the second is at least the one it returns
  for the first.
\<close>

theorem breakEven_monotone_in_initialInvestment:
  "js_lt (initialInvestment inputs) v \<Longrightarrow>
     breakEvenMonth (calculateMetrics inputs)
       \<le> breakEvenMonth (calculateMetrics (inputs\<lparr>initialInvestment := v\<rparr>))"
proof -
  assume lt: "js_lt (initialInvestment inputs) v"
  let ?ps = "map (monthlyProfit inputs (cogsPerUnit inputs)) [0 ..< MONTHS_IN_YEAR * 5]"
  from lt have "dominated (js_neg (initialInvestment inputs)) (js_neg v)"
    by (rule dominated_neg)
  then have d: "list_all2 dominated (running (js_neg (initialInvestment inputs)) ?ps)
                                   (running (js_neg v) ?ps)"
    by (rule running_dominated)
  have l: "length (running (js_neg (initialInvestment inputs)) ?ps) = 60"
    by (simp add: length_running MONTHS_IN_YEAR_def)
  have "calculateBreakEvenMonth (initialInvestment inputs)
          (running (js_neg (initialInvestment inputs)) ?ps)
        \<le> calculateBreakEvenMonth v (running (js_neg v) ?ps)"
    using d l by (rule breakEven_dominated)
  then show ?thesis
    by (simp add: breakEvenMonth_calculateMetrics cogsPerUnit_initialInvestment
        monthlyProfit_initialInvestment)
qed

theorem breakEven_monotone_in_initialInvestment_witness:
  "js_lt (initialInvestment defaultInputs) (Fin 250000)
   \<and> breakEvenMonth (calculateMetrics defaultInputs)
       \<le> breakEvenMonth (calculateMetrics (defaultInputs\<lparr>initialInvestment := Fin 250000\<rparr>))"
proof -
  have h: "js_lt (initialInvestment defaultInputs) (Fin 250000)"
    by (simp add: defaultInputs_def)
  from h breakEven_monotone_in_initialInvestment [OF h] show ?thesis by simp
qed

section \<open>Evaluating the engine\<close>

text \<open>Projections of the result record, and the unit cost of the example sets.\<close>

lemmas engine_defs =
  cogsPerUnit_def calculateProductMaterialsPerUnit_def calculateShippingCostsPerUnit_def
  inboundCosts_def outboundCosts_def unitsPerContainer_def MONTHS_IN_YEAR_def
  calculateMarketingMetrics_def potentialPaidSales_def profitPerUnit_def targetPoas_def
  js_sub_def js_gt_def js_ge_def Math_min_def Math_max_def Let_def

lemma marketingMetrics_calculateMetrics:
  "marketingMetrics (calculateMetrics inputs) =
     calculateMarketingMetrics inputs
       (MonthlyData.revenue (calculateMonthlyData inputs (cogsPerUnit inputs)))
       (cogsPerUnit inputs)"
  by (simp add: calculateMetrics_def Let_def)

lemma cogs_calculateMetrics:
  "perUnit (cogs (calculateMetrics inputs)) = cogsPerUnit inputs"
  by (simp add: calculateMetrics_def Let_def)

lemma cogs_zeroVolume: "cogsPerUnit zeroVolumeInputs = Fin (99 / 4)"
  by (simp add: zeroVolumeInputs_def defaultInputs_def engine_defs)

lemma cogs_zeroVolumeInHouse: "cogsPerUnit zeroVolumeInHouseInputs = PosInf"
  by (simp add: zeroVolumeInHouseInputs_def defaultInputs_def engine_defs)

lemma cogs_lowPrice: "cogsPerUnit lowPriceInputs = Fin 22"
  by (simp add: lowPriceInputs_def defaultInputs_def engine_defs)

lemma cogs_zeroBudgetZeroVolume: "cogsPerUnit zeroBudgetZeroVolumeInputs = Fin (99 / 4)"
  by (simp add: zeroBudgetZeroVolumeInputs_def defaultInputs_def engine_defs)

lemma cogs_zeroBudgetZeroProfit: "cogsPerUnit zeroBudgetZeroProfitInputs = Fin 0"
  by (simp add: zeroBudgetZeroProfitInputs_def defaultInputs_def engine_defs)

lemma cogs_zeroChurnZeroVolumeInHouse: "cogsPerUnit zeroChurnZeroVolumeInHouseInputs = PosInf"
  by (simp add: zeroChurnZeroVolumeInHouseInputs_def zeroVolumeInHouseInputs_def
      defaultInputs_def engine_defs)

lemma cogs_zeroChurn: "cogsPerUnit zeroChurnInputs = Fin (99 / 4)"
  by (simp add: zeroChurnInputs_def defaultInputs_def engine_defs)

lemma js_gt_div_100: "js_gt (js_div x (Fin 100)) (Fin 0) = js_gt x (Fin 0)"
  by (cases x) (auto simp: js_gt_def)

lemma js_add_not_finite:
  "(\<forall>x. q \<noteq> Fin x) \<Longrightarrow> js_add a q \<noteq> Fin y"
  by (cases a; cases q) auto

lemma js_div_by_zero_not_finite: "js_div r (Fin 0) \<noteq> Fin y"
  by (cases r) auto

section \<open>Unguarded divisions\<close>

text \<open>
  Four divisions of the engine are guarded (\<open>cac\<close> by \<open>paidSales > 0\<close>, \<open>customerLifespan\<close>
  by \<open>monthlyChurnRate > 0\<close>, \<open>ltvCacRatio\<close> by \<open>cac > 0\<close>, the two margins by \<open>isNaN\<close>).
  Three are not: \<open>warehouseRent / monthlyUnits\<close>, \<open>... / profitPerUnit\<close> and
  \<open>organicSales / monthlyUnits\<close>. The lemmas say what the unguarded ones give.
\<close>

lemma outboundCosts_zero_volume_not_finite:
  "fulfillmentType (FinancialInputs.shipping inputs) = InHouseFulfillment \<Longrightarrow>
   unitsSoldYear1 inputs = Fin 0 \<Longrightarrow> outboundCosts inputs \<noteq> Fin y"
  by (simp add: outboundCosts_def MONTHS_IN_YEAR_def Let_def js_add_not_finite
      js_div_by_zero_not_finite)

lemma organicPercentage_zero_volume:
  assumes "unitsSoldYear1 inputs = Fin 0"
  shows "organicPercentage (calculateMarketingMetrics inputs mr c) = NaN
       \<or> organicPercentage (calculateMarketingMetrics inputs mr c) = PosInf"
proof -
  have "js_mul (js_div (Math_max (Fin 0) s) (Fin 0)) (Fin 100) = NaN
      \<or> js_mul (js_div (Math_max (Fin 0) s) (Fin 0)) (Fin 100) = PosInf" for s
    by (cases s) (auto simp: Math_max_def)
  then show ?thesis
    using assms by (simp add: calculateMarketingMetrics_def MONTHS_IN_YEAR_def Let_def)
qed

lemma paidSales_negative_profitPerUnit:
  assumes "profitPerUnit inputs c = Fin p" "p < 0"
    and "totalBudget (budgetAllocation (FinancialInputs.marketing inputs)) = Fin b" "0 < b"
    and "unitsSoldYear1 inputs = Fin u" "0 \<le> u"
  shows "js_lt (paidSales (calculateMarketingMetrics inputs mr c)) (Fin 0)"
proof -
  have "b * 3 / (2 * p) < 0"
    using assms(2,4) by (simp add: divide_neg_pos divide_pos_neg field_simps)
  then show ?thesis
    using assms
    by (simp add: calculateMarketingMetrics_def potentialPaidSales_def targetPoas_def
        MONTHS_IN_YEAR_def Math_min_def Let_def)
qed

text \<open>
  Claim C1. The claim is that no field of the result of \<open>calculateMetrics\<close> is \<open>NaN\<close> or
  \<open>Infinity\<close>, every division by zero being guarded to give 0. The code does not do this:
  with the default assumption set and a year-1 volume of 0, \<open>organicPercentage\<close> is
  \<open>0 / 0 = NaN\<close>; with self-fulfillment in addition, the cost of goods per unit is
  \<open>2000 / 0 = Infinity\<close>.
\<close>

theorem zero_volume_outputs_not_finite:
  "organicPercentage (marketingMetrics (calculateMetrics zeroVolumeInputs)) = NaN
   \<and> perUnit (cogs (calculateMetrics zeroVolumeInHouseInputs)) = PosInf"
proof -
  have "organicPercentage (calculateMarketingMetrics zeroVolumeInputs mr (Fin (99 / 4))) = NaN"
    for mr
    by (simp add: zeroVolumeInputs_def defaultInputs_def calculateMarketingMetrics_def
        potentialPaidSales_def profitPerUnit_def targetPoas_def MONTHS_IN_YEAR_def
        js_sub_def js_gt_def Math_min_def Math_max_def Let_def)
  then show ?thesis
    by (simp add: marketingMetrics_calculateMetrics cogs_calculateMetrics cogs_zeroVolume
        cogs_zeroVolumeInHouse)
qed

text \<open>
  Claim C2. The claim is that with self-fulfillment and a year-1 volume of 0 the
  warehouse-rent term counts as 0, so that the outbound cost per unit is labor plus
  postage. The code divides the rent by the monthly volume without a guard: for the
  default assumption set with self-fulfillment and volume 0 the outbound cost is
  \<open>Infinity\<close>, while labor plus postage is 5.25.
\<close>

theorem outboundCosts_zero_volume_inHouse:
  "fulfillmentType (FinancialInputs.shipping zeroVolumeInHouseInputs) = InHouseFulfillment
   \<and> unitsSoldYear1 zeroVolumeInHouseInputs = Fin 0
   \<and> outboundCosts zeroVolumeInHouseInputs = PosInf
   \<and> js_add (InHouse.labor (inHouse (FinancialInputs.shipping zeroVolumeInHouseInputs)))
             (InHouse.postage (inHouse (FinancialInputs.shipping zeroVolumeInHouseInputs)))
       = Fin (21 / 4)"
  by (simp add: zeroVolumeInHouseInputs_def defaultInputs_def outboundCosts_def
      MONTHS_IN_YEAR_def)

text \<open>
  Claim C3. The claim is that a profit per unit \<open>\<le> 0\<close> makes \<open>paidSales\<close> 0, \<open>cac\<close> 0 and
  \<open>organicSales\<close> the full monthly target. The code divides by the profit per unit without
  a guard: for the default assumption set with a price of 10 the profit per unit is
  negative, \<open>paidSales\<close> is negative (-1250) and \<open>organicSales\<close> is 1916.67, above the
  monthly target of 666.67; only \<open>cac = 0\<close> is as claimed.
\<close>

theorem negative_profitPerUnit_paidSales:
  "js_le (profitPerUnit lowPriceInputs (cogsPerUnit lowPriceInputs)) (Fin 0)
   \<and> paidSales (marketingMetrics (calculateMetrics lowPriceInputs)) = Fin (- 1250)
   \<and> js_lt (paidSales (marketingMetrics (calculateMetrics lowPriceInputs))) (Fin 0)
   \<and> organicSales (marketingMetrics (calculateMetrics lowPriceInputs)) = Fin (5750 / 3)
   \<and> js_gt (organicSales (marketingMetrics (calculateMetrics lowPriceInputs)))
            (js_div (unitsSoldYear1 lowPriceInputs) (Fin 12))
   \<and> cac (marketingMetrics (calculateMetrics lowPriceInputs)) = Fin 0
   \<and> js_div (unitsSoldYear1 lowPriceInputs) (Fin 12) = Fin (2000 / 3)"
proof -
  have "paidSales (calculateMarketingMetrics lowPriceInputs mr (Fin 22)) = Fin (- 1250)
      \<and> organicSales (calculateMarketingMetrics lowPriceInputs mr (Fin 22)) = Fin (5750 / 3)
      \<and> cac (calculateMarketingMetrics lowPriceInputs mr (Fin 22)) = Fin 0"
    for mr
    by (simp add: lowPriceInputs_def defaultInputs_def calculateMarketingMetrics_def
        potentialPaidSales_def profitPerUnit_def targetPoas_def MONTHS_IN_YEAR_def
        js_sub_def js_gt_def Math_min_def Math_max_def Let_def)
  moreover have "js_le (profitPerUnit lowPriceInputs (Fin 22)) (Fin 0)"
    by (simp add: lowPriceInputs_def defaultInputs_def profitPerUnit_def js_sub_def)
  moreover have "js_div (unitsSoldYear1 lowPriceInputs) (Fin 12) = Fin (2000 / 3)"
    by (simp add: lowPriceInputs_def defaultInputs_def)
  ultimately show ?thesis
    by (simp add: marketingMetrics_calculateMetrics cogs_lowPrice js_gt_def)
qed

text \<open>
  Claim C4. The claim is that a year-1 volume of 0 makes \<open>organicPercentage\<close>, \<open>paidSales\<close>
  and \<open>organicSales\<close> all 0. For the default assumption set with volume 0 the code gives
  \<open>paidSales = 0\<close> and \<open>organicSales = 0\<close>, and then \<open>organicPercentage = 0 / 0 * 100 = NaN\<close>.
\<close>

theorem zero_volume_marketing_metrics:
  "unitsSoldYear1 zeroVolumeInputs = Fin 0
   \<and> paidSales
        (calculateMarketingMetrics zeroVolumeInputs mr (cogsPerUnit zeroVolumeInputs)) = Fin 0
   \<and> organicSales
        (calculateMarketingMetrics zeroVolumeInputs mr (cogsPerUnit zeroVolumeInputs)) = Fin 0
   \<and> organicPercentage
        (calculateMarketingMetrics zeroVolumeInputs mr (cogsPerUnit zeroVolumeInputs)) = NaN"
  by (simp add: cogs_zeroVolume)
     (simp add: zeroVolumeInputs_def defaultInputs_def calculateMarketingMetrics_def
        potentialPaidSales_def profitPerUnit_def targetPoas_def MONTHS_IN_YEAR_def
        js_sub_def js_gt_def Math_min_def Math_max_def Let_def)

section \<open>Marketing attribution with a zero budget\<close>

text \<open>
  Claim C7. The claim is that a total monthly marketing budget of 0 gives
  \<open>acquisitionSpend = 0\<close>, \<open>paidSales = 0\<close>, \<open>organicSales\<close> equal to the monthly unit
  target and \<open>organicPercentage = 100\<close>. The code has neither the guard on the profit per
  unit nor the one on the monthly unit target. With a zero budget, a price of 0 and all
  costs zeroed, the profit per unit is 0 and the potential paid sales are \<open>0 / 0\<close>, so
  that \<open>paidSales\<close>, \<open>organicSales\<close> and \<open>organicPercentage\<close> are all \<open>NaN\<close> at a monthly
  target of 666.67; only \<open>acquisitionSpend = 0\<close> is as claimed. With a zero budget and a
  year-1 volume of 0, \<open>organicPercentage\<close> is \<open>0 / 0 * 100 = NaN\<close>.
\<close>

theorem zero_budget_marketing_metrics_not_guarded:
  "totalBudget (budgetAllocation (FinancialInputs.marketing zeroBudgetZeroProfitInputs)) = Fin 0
   \<and> js_div (unitsSoldYear1 zeroBudgetZeroProfitInputs) (Fin 12) = Fin (2000 / 3)
   \<and> profitPerUnit zeroBudgetZeroProfitInputs (cogsPerUnit zeroBudgetZeroProfitInputs) = Fin 0
   \<and> acquisitionSpend (marketingMetrics (calculateMetrics zeroBudgetZeroProfitInputs)) = Fin 0
   \<and> paidSales (marketingMetrics (calculateMetrics zeroBudgetZeroProfitInputs)) = NaN
   \<and> organicSales (marketingMetrics (calculateMetrics zeroBudgetZeroProfitInputs)) = NaN
   \<and> organicPercentage (marketingMetrics (calculateMetrics zeroBudgetZeroProfitInputs)) = NaN
   \<and> totalBudget (budgetAllocation (FinancialInputs.marketing zeroBudgetZeroVolumeInputs)) = Fin 0
   \<and> organicPercentage (marketingMetrics (calculateMetrics zeroBudgetZeroVolumeInputs)) = NaN"
proof -
  have p: "acquisitionSpend (calculateMarketingMetrics zeroBudgetZeroProfitInputs mr (Fin 0)) = Fin 0
      \<and> paidSales (calculateMarketingMetrics zeroBudgetZeroProfitInputs mr (Fin 0)) = NaN
      \<and> organicSales (calculateMarketingMetrics zeroBudgetZeroProfitInputs mr (Fin 0)) = NaN
      \<and> organicPercentage (calculateMarketingMetrics zeroBudgetZeroProfitInputs mr (Fin 0)) = NaN"
    for mr
    by (simp add: zeroBudgetZeroProfitInputs_def defaultInputs_def calculateMarketingMetrics_def
        potentialPaidSales_def profitPerUnit_def targetPoas_def MONTHS_IN_YEAR_def
        js_sub_def js_gt_def Math_min_def Math_max_def Let_def)
  have i: "totalBudget (budgetAllocation (FinancialInputs.marketing zeroBudgetZeroProfitInputs))
             = Fin 0
      \<and> js_div (unitsSoldYear1 zeroBudgetZeroProfitInputs) (Fin 12) = Fin (2000 / 3)
      \<and> profitPerUnit zeroBudgetZeroProfitInputs (Fin 0) = Fin 0"
    by (simp add: zeroBudgetZeroProfitInputs_def defaultInputs_def profitPerUnit_def js_sub_def)
  have v: "organicPercentage
          (calculateMarketingMetrics zeroBudgetZeroVolumeInputs mr (Fin (99 / 4))) = NaN" for mr
    by (simp add: zeroBudgetZeroVolumeInputs_def defaultInputs_def calculateMarketingMetrics_def
        potentialPaidSales_def profitPerUnit_def targetPoas_def MONTHS_IN_YEAR_def
        js_sub_def js_gt_def Math_min_def Math_max_def Let_def)
  have w: "totalBudget (budgetAllocation (FinancialInputs.marketing zeroBudgetZeroVolumeInputs))
             = Fin 0"
    by (simp add: zeroBudgetZeroVolumeInputs_def)
  from p i v w show ?thesis
    by (simp add: marketingMetrics_calculateMetrics cogs_zeroBudgetZeroProfit
        cogs_zeroBudgetZeroVolume)
qed

section \<open>Customer lifespan and lifetime value\<close>

text \<open>
  The guard of the lifespan is in the code as the specification has it, and so is the
  product that gives the lifetime value: for every assumption set, the customer lifespan is
  \<open>1 / (monthlyChurnRate / 100)\<close> when the churn rate is above 0 and 0 when it is 0, the
  lifetime value is (price per unit - cost of goods per unit) times the lifespan, and a
  churn rate of 0 gives a lifetime value of 0 whenever price minus cost of goods per unit
  is finite.
\<close>

theorem customerLifespan_and_ltv:
  "(js_gt (monthlyChurnRate (FinancialInputs.misc inputs)) (Fin 0) \<longrightarrow>
      customerLifespan (marketingMetrics (calculateMetrics inputs))
        = js_div (Fin 1) (js_div (monthlyChurnRate (FinancialInputs.misc inputs)) (Fin 100)))
   \<and> (monthlyChurnRate (FinancialInputs.misc inputs) = Fin 0 \<longrightarrow>
      customerLifespan (marketingMetrics (calculateMetrics inputs)) = Fin 0)
   \<and> ltv (marketingMetrics (calculateMetrics inputs))
        = js_mul (js_sub (pricePerUnit inputs) (cogsPerUnit inputs))
                 (customerLifespan (marketingMetrics (calculateMetrics inputs)))
   \<and> (monthlyChurnRate (FinancialInputs.misc inputs) = Fin 0
        \<and> js_sub (pricePerUnit inputs) (cogsPerUnit inputs) = Fin g \<longrightarrow>
      ltv (marketingMetrics (calculateMetrics inputs)) = Fin 0)"
  by (simp add: marketingMetrics_calculateMetrics calculateMarketingMetrics_def Let_def
      js_gt_div_100)
     (simp add: js_gt_def)

theorem customerLifespan_and_ltv_witness:
  "js_gt (monthlyChurnRate (FinancialInputs.misc defaultInputs)) (Fin 0)
   \<and> customerLifespan (marketingMetrics (calculateMetrics defaultInputs)) = Fin 20
   \<and> monthlyChurnRate (FinancialInputs.misc zeroChurnInputs) = Fin 0
   \<and> js_sub (pricePerUnit zeroChurnInputs) (cogsPerUnit zeroChurnInputs) = Fin (161 / 4)
   \<and> customerLifespan (marketingMetrics (calculateMetrics zeroChurnInputs)) = Fin 0
   \<and> ltv (marketingMetrics (calculateMetrics zeroChurnInputs)) = Fin 0"
proof -
  have c: "js_gt (monthlyChurnRate (FinancialInputs.misc defaultInputs)) (Fin 0)"
    by (simp add: defaultInputs_def js_gt_def)
  have z: "monthlyChurnRate (FinancialInputs.misc zeroChurnInputs) = Fin 0"
    by (simp add: zeroChurnInputs_def)
  have g: "js_sub (pricePerUnit zeroChurnInputs) (cogsPerUnit zeroChurnInputs) = Fin (161 / 4)"
    by (simp add: cogs_zeroChurn js_sub_def) (simp add: zeroChurnInputs_def defaultInputs_def)
  have d: "js_div (Fin 1) (js_div (monthlyChurnRate (FinancialInputs.misc defaultInputs)) (Fin 100))
           = Fin 20"
    by (simp add: defaultInputs_def)
  from customerLifespan_and_ltv [of defaultInputs] c d
  have 1: "customerLifespan (marketingMetrics (calculateMetrics defaultInputs)) = Fin 20"
    by simp
  from customerLifespan_and_ltv [of zeroChurnInputs "161 / 4"] z g
  have 2: "customerLifespan (marketingMetrics (calculateMetrics zeroChurnInputs)) = Fin 0
         \<and> ltv (marketingMetrics (calculateMetrics zeroChurnInputs)) = Fin 0"
    by simp
  from c z g 1 2 show ?thesis by simp
qed

text \<open>
  Claim C8. The claim is that, for every assumption set, a churn rate of 0 gives a customer
  lifespan of 0 and a lifetime value of 0. The lifespan is 0, but the lifetime value is the
  margin per customer times 0, and the margin need not be finite: with a churn rate of 0,
  self-fulfillment and a year-1 volume of 0, the unguarded warehouse-rent division makes
  the cost of goods per unit \<open>Infinity\<close>, the margin \<open>-Infinity\<close>, and the lifetime value
  \<open>-Infinity * 0 = NaN\<close>.
\<close>

theorem zero_churn_ltv_not_zero:
  "monthlyChurnRate (FinancialInputs.misc zeroChurnZeroVolumeInHouseInputs) = Fin 0
   \<and> customerLifespan (marketingMetrics (calculateMetrics zeroChurnZeroVolumeInHouseInputs)) = Fin 0
   \<and> ltv (marketingMetrics (calculateMetrics zeroChurnZeroVolumeInHouseInputs)) = NaN"
proof -
  have "customerLifespan
          (calculateMarketingMetrics zeroChurnZeroVolumeInHouseInputs mr PosInf) = Fin 0
      \<and> ltv (calculateMarketingMetrics zeroChurnZeroVolumeInHouseInputs mr PosInf) = NaN" for mr
    by (simp add: zeroChurnZeroVolumeInHouseInputs_def zeroVolumeInHouseInputs_def
        defaultInputs_def calculateMarketingMetrics_def
        potentialPaidSales_def profitPerUnit_def targetPoas_def MONTHS_IN_YEAR_def
        js_sub_def js_gt_def Math_min_def Math_max_def Let_def)
  then show ?thesis
    by (simp add: marketingMetrics_calculateMetrics cogs_zeroChurnZeroVolumeInHouse)
      (simp add: zeroChurnZeroVolumeInHouseInputs_def zeroVolumeInHouseInputs_def
        defaultInputs_def)
qed

section \<open>The annual series\<close>

lemma foldl_annualStep:
  "foldl (annualStep inputs c) (r, g, n) ys =
     (r @ map (yearlyRevenue inputs) ys,
      g @ map (yearlyGrossProfit inputs c) ys,
      n @ map (yearlyNetProfit inputs c) ys)"
  by (induction ys arbitrary: r g n) (auto simp: annualStep_def)

lemma calculateAnnualMetrics_series:
  "calculateAnnualMetrics inputs c =
     \<lparr> AnnualMetrics.revenue = map (yearlyRevenue inputs) [0 ..< 5],
       AnnualMetrics.grossProfit = map (yearlyGrossProfit inputs c) [0 ..< 5],
       AnnualMetrics.netProfit = map (yearlyNetProfit inputs c) [0 ..< 5] \<rparr>"
  by (simp add: calculateAnnualMetrics_def foldl_annualStep)

lemma annual_calculateMetrics:
  "CalculatedMetrics.revenue (calculateMetrics inputs) = map (yearlyRevenue inputs) [0 ..< 5]"
  "CalculatedMetrics.grossProfit (calculateMetrics inputs)
     = map (yearlyGrossProfit inputs (cogsPerUnit inputs)) [0 ..< 5]"
  "CalculatedMetrics.netProfit (calculateMetrics inputs)
     = map (yearlyNetProfit inputs (cogsPerUnit inputs)) [0 ..< 5]"
  by (simp_all add: calculateMetrics_def Let_def calculateAnnualMetrics_series)

text \<open>
  Claim C9. For an assumption set with price per unit 65, year-1 volume 8000, growth 50
  percent, seven per-unit cost fields that sum to 15, no custom costs, all shipping costs
  zero and no returns, in either fulfillment mode: in year 0 the units are 8000, the
  revenue is 520000, the cost of goods per unit is 15, the cost of goods is 120000 and the
  gross profit is 400000; the revenue and the gross profit are the first entries of the
  annual series that \<open>calculateMetrics\<close> returns. The initial investment and the marketing,
  operational and other miscellaneous inputs are not read by these five values.
\<close>

theorem scenario_year0:
  assumes price: "pricePerUnit inputs = Fin 65"
    and units: "unitsSoldYear1 inputs = Fin 8000"
    and growth: "annualGrowthRate inputs = Fin 50"
    and costs: "FinancialInputs.costs inputs =
                  \<lparr> productBox = Fin c1, bottleSprayer = Fin c2, concentrate = Fin c3,
                    nfcChip = Fin c4, printMaterials = Fin c5, shippingBox = Fin c6,
                    manufacturingLabor = Fin c7, customCosts = [] \<rparr>"
               "c1 + c2 + c3 + c4 + c5 + c6 + c7 = 15"
    and ship: "inbound (FinancialInputs.shipping inputs) = zeroInbound"
              "thirdParty (FinancialInputs.shipping inputs) = zeroThirdParty"
              "inHouse (FinancialInputs.shipping inputs) = zeroInHouse"
    and returns: "returnsRefundsPercent (FinancialInputs.misc inputs) = Fin 0"
  shows "yearlyUnits inputs 0 = Fin 8000
       \<and> yearlyRevenue inputs 0 = Fin 520000
       \<and> cogsPerUnit inputs = Fin 15
       \<and> yearlyCOGS inputs (cogsPerUnit inputs) 0 = Fin 120000
       \<and> yearlyGrossProfit inputs (cogsPerUnit inputs) 0 = Fin 400000
       \<and> js_index (CalculatedMetrics.revenue (calculateMetrics inputs)) 0 = Fin 520000
       \<and> js_index (CalculatedMetrics.grossProfit (calculateMetrics inputs)) 0 = Fin 400000"
proof -
  have u: "yearlyUnits inputs 0 = Fin 8000"
    using units growth by (simp add: yearlyUnits_def)
  have r: "yearlyRevenue inputs 0 = Fin 520000"
    using u price by (simp add: yearlyRevenue_def)
  have m: "calculateProductMaterialsPerUnit inputs = Fin 15"
    using costs by (simp add: calculateProductMaterialsPerUnit_def)
  have s: "calculateShippingCostsPerUnit inputs = Fin 0"
    using ship units price
    by (simp add: calculateShippingCostsPerUnit_def inboundCosts_def outboundCosts_def
        zeroInbound_def zeroThirdParty_def zeroInHouse_def unitsPerContainer_def
        MONTHS_IN_YEAR_def Let_def)
  have c: "cogsPerUnit inputs = Fin 15"
    using m s by (simp add: cogsPerUnit_def)
  have k: "yearlyCOGS inputs (cogsPerUnit inputs) 0 = Fin 120000"
    using u c by (simp add: yearlyCOGS_def)
  have t: "yearlyReturns inputs 0 = Fin 0"
    using r returns by (simp add: yearlyReturns_def)
  have g: "yearlyGrossProfit inputs (cogsPerUnit inputs) 0 = Fin 400000"
    using r k t by (simp add: yearlyGrossProfit_def js_diff_def js_sub_def)
  have i: "js_index (CalculatedMetrics.revenue (calculateMetrics inputs)) 0 = yearlyRevenue inputs 0"
          "js_index (CalculatedMetrics.grossProfit (calculateMetrics inputs)) 0
             = yearlyGrossProfit inputs (cogsPerUnit inputs) 0"
    by (simp_all add: annual_calculateMetrics js_index_def)
  from u r c k g i show ?thesis by simp
qed

theorem scenario_year0_witness:
  "pricePerUnit scenarioInputs = Fin 65
   \<and> unitsSoldYear1 scenarioInputs = Fin 8000
   \<and> annualGrowthRate scenarioInputs = Fin 50
   \<and> initialInvestment scenarioInputs = Fin 100000
   \<and> yearlyUnits scenarioInputs 0 = Fin 8000
   \<and> yearlyRevenue scenarioInputs 0 = Fin 520000
   \<and> cogsPerUnit scenarioInputs = Fin 15
   \<and> yearlyCOGS scenarioInputs (cogsPerUnit scenarioInputs) 0 = Fin 120000
   \<and> yearlyGrossProfit scenarioInputs (cogsPerUnit scenarioInputs) 0 = Fin 400000
   \<and> js_index (CalculatedMetrics.revenue (calculateMetrics scenarioInputs)) 0 = Fin 520000
   \<and> js_index (CalculatedMetrics.grossProfit (calculateMetrics scenarioInputs)) 0 = Fin 400000"
proof -
  have p: "pricePerUnit scenarioInputs = Fin 65"
    and u: "unitsSoldYear1 scenarioInputs = Fin 8000"
    and g: "annualGrowthRate scenarioInputs = Fin 50"
    and v: "initialInvestment scenarioInputs = Fin 100000"
    and c: "FinancialInputs.costs scenarioInputs =
              \<lparr> productBox = Fin 2, bottleSprayer = Fin 3, concentrate = Fin 5,
                nfcChip = Fin 1, printMaterials = Fin 1, shippingBox = Fin 1,
                manufacturingLabor = Fin 2, customCosts = [] \<rparr>"
    and s: "inbound (FinancialInputs.shipping scenarioInputs) = zeroInbound"
           "thirdParty (FinancialInputs.shipping scenarioInputs) = zeroThirdParty"
           "inHouse (FinancialInputs.shipping scenarioInputs) = zeroInHouse"
    and r: "returnsRefundsPercent (FinancialInputs.misc scenarioInputs) = Fin 0"
    by (simp_all add: scenarioInputs_def zeroInbound_def zeroThirdParty_def zeroInHouse_def)
  have e: "(2::real) + 3 + 5 + 1 + 1 + 1 + 2 = 15" by simp
  from scenario_year0 [OF p u g c e s r] p u g v show ?thesis by blast
qed

section \<open>Fields the engine does not read\<close>

lemma unread_unit_costs:
  "calculateProductMaterialsPerUnit (withUnreadFields inputs nm ds dm pa ib cb srcs)
     = calculateProductMaterialsPerUnit inputs"
  "calculateShippingCostsPerUnit (withUnreadFields inputs nm ds dm pa ib cb srcs)
     = calculateShippingCostsPerUnit inputs"
  "cogsPerUnit (withUnreadFields inputs nm ds dm pa ib cb srcs) = cogsPerUnit inputs"
  by (simp_all add: withUnreadFields_def cogsPerUnit_def calculateProductMaterialsPerUnit_def
      calculateShippingCostsPerUnit_def inboundCosts_def outboundCosts_def)

lemma unread_monthlyStep:
  "monthlyStep (withUnreadFields inputs nm ds dm pa ib cb srcs) c = monthlyStep inputs c"
  by (intro ext)
    (simp add: withUnreadFields_def monthlyStep_def monthlyProfit_def monthRevenue_def
      baseMonthlyUnits_def monthlyGrowthRate_def monthlyFixedCosts_def monthlySoftwareCosts_def
      monthlyMarketingCosts_def)

lemma unread_calculateMonthlyData:
  "calculateMonthlyData (withUnreadFields inputs nm ds dm pa ib cb srcs) c
     = calculateMonthlyData inputs c"
  by (simp add: calculateMonthlyData_def unread_monthlyStep)
     (simp add: withUnreadFields_def)

lemma unread_annualStep:
  "annualStep (withUnreadFields inputs nm ds dm pa ib cb srcs) c = annualStep inputs c"
  by (intro ext)
    (simp add: withUnreadFields_def annualStep_def yearlyRevenue_def yearlyUnits_def
      yearlyGrossProfit_def yearlyCOGS_def yearlyReturns_def yearlyNetProfit_def)

lemma unread_calculateAnnualMetrics:
  "calculateAnnualMetrics (withUnreadFields inputs nm ds dm pa ib cb srcs) c
     = calculateAnnualMetrics inputs c"
  by (simp add: calculateAnnualMetrics_def unread_annualStep)

lemma unread_calculateMarketingMetrics:
  "calculateMarketingMetrics (withUnreadFields inputs nm ds dm pa ib cb srcs) mr c
     = calculateMarketingMetrics inputs mr c"
  by (simp add: withUnreadFields_def calculateMarketingMetrics_def potentialPaidSales_def
      profitPerUnit_def)

lemma unread_calculateExpenseBreakdown:
  "calculateExpenseBreakdown (withUnreadFields inputs nm ds dm pa ib cb srcs) r c
     = calculateExpenseBreakdown inputs r c"
  by (simp add: calculateExpenseBreakdown_def unread_unit_costs)
     (simp add: withUnreadFields_def)

lemma unread_scalars:
  "pricePerUnit (withUnreadFields inputs nm ds dm pa ib cb srcs) = pricePerUnit inputs"
  "unitsSoldYear1 (withUnreadFields inputs nm ds dm pa ib cb srcs) = unitsSoldYear1 inputs"
  "initialInvestment (withUnreadFields inputs nm ds dm pa ib cb srcs) = initialInvestment inputs"
  "FinancialInputs.misc (withUnreadFields inputs nm ds dm pa ib cb srcs)
     = FinancialInputs.misc inputs"
  by (simp_all add: withUnreadFields_def)

text \<open>
  Two assumption sets that agree on every field but the name, the description, the
  dark-mode flag, the three legacy marketing budgets and the per-channel allocations are
  related by \<open>withUnreadFields\<close>.
\<close>

lemma differ_only_in_unread_fields:
  fixes i1 i2 :: FinancialInputs
  assumes "pricePerUnit i2 = pricePerUnit i1" "unitsSoldYear1 i2 = unitsSoldYear1 i1"
    "annualGrowthRate i2 = annualGrowthRate i1" "initialInvestment i2 = initialInvestment i1"
    "FinancialInputs.costs i2 = FinancialInputs.costs i1"
    "FinancialInputs.operational i2 = FinancialInputs.operational i1"
    "FinancialInputs.shipping i2 = FinancialInputs.shipping i1"
    "FinancialInputs.misc i2 = FinancialInputs.misc i1"
    "acquisitionPercent (FinancialInputs.marketing i2)
       = acquisitionPercent (FinancialInputs.marketing i1)"
    "totalBudget (budgetAllocation (FinancialInputs.marketing i2))
       = totalBudget (budgetAllocation (FinancialInputs.marketing i1))"
  shows "i2 = withUnreadFields i1 (modelName i2) (modelDescription i2) (darkMode i2)
           (paidAds (FinancialInputs.marketing i2))
           (influencerBudget (FinancialInputs.marketing i2))
           (contentBudget (FinancialInputs.marketing i2))
           (sources (budgetAllocation (FinancialInputs.marketing i2)))"
proof -
  have b: "budgetAllocation (FinancialInputs.marketing i2)
         = (budgetAllocation (FinancialInputs.marketing i1))
             \<lparr> sources := sources (budgetAllocation (FinancialInputs.marketing i2)) \<rparr>"
    using assms(10) by (intro BudgetAllocation.equality) simp_all
  have m: "FinancialInputs.marketing i2
         = (FinancialInputs.marketing i1)
             \<lparr> paidAds := paidAds (FinancialInputs.marketing i2),
               influencerBudget := influencerBudget (FinancialInputs.marketing i2),
               contentBudget := contentBudget (FinancialInputs.marketing i2),
               budgetAllocation := (budgetAllocation (FinancialInputs.marketing i1))
                 \<lparr> sources := sources (budgetAllocation (FinancialInputs.marketing i2)) \<rparr> \<rparr>"
    using assms(9) b by (intro Marketing.equality) simp_all
  show ?thesis
    unfolding withUnreadFields_def
    using assms(1-8) m by (intro FinancialInputs.equality) simp_all
qed

text \<open>
  Claim C10. Replacing the per-channel traffic-source allocations, the legacy marketing
  fields \<open>paidAds\<close>, \<open>influencerBudget\<close> and \<open>contentBudget\<close>, the model name and
  description, and the dark-mode flag by any other values leaves the whole result of
  \<open>calculateMetrics\<close> unchanged.
\<close>

theorem unread_fields_do_not_matter:
  "calculateMetrics (withUnreadFields inputs nm ds dm pa ib cb srcs) = calculateMetrics inputs"
  by (simp add: calculateMetrics_def unread_unit_costs unread_calculateMonthlyData
      unread_calculateAnnualMetrics unread_calculateMarketingMetrics
      unread_calculateExpenseBreakdown unread_scalars)

end
